theory Spec2Isabelle
  imports Complex_Main
begin

section \<open>Python values\<close>

text \<open>
  Exceptions are values. \<open>get_url_params\<close> has the handler
  \<^verbatim>\<open>except (ValueError, AttributeError)\<close>, so the model keeps these two classes apart from
  every other one (\<open>OtherError\<close>: a \<open>TypeError\<close>, say). pendulum's \<open>ParserError\<close> is a
  subclass of \<open>ValueError\<close> and is a \<open>ValueError\<close> here.
\<close>

datatype exn = ValueError string | AttributeError string | OtherError string

text \<open>The classes named by the handler of \<open>get_url_params\<close>.\<close>

fun is_value_or_attribute_error :: "exn \<Rightarrow> bool" where
  "is_value_or_attribute_error (ValueError m) = True"
| "is_value_or_attribute_error (AttributeError m) = True"
| "is_value_or_attribute_error (OtherError m) = False"

text \<open>
  A stored replication-key value is a JSON scalar of the state file: a string (the usual
  case, a timestamp) or an integer.
\<close>

datatype scalar = Str string | Num int

text \<open>Decimal digits of a natural number, as \<open>str\<close> prints them.\<close>

function str_nat :: "nat \<Rightarrow> string" where
  "str_nat n = (if n < 10 then [''0123456789'' ! n]
                else str_nat (n div 10) @ [''0123456789'' ! (n mod 10)])"
  by pat_completeness auto
termination
  by (relation "measure (\<lambda>n. n)") auto

declare str_nat.simps [simp del]

definition str_int :: "int \<Rightarrow> string" where
  "str_int i = (if i < 0 then CHR ''-'' # str_nat (nat (- i)) else str_nat (nat i))"

text \<open>What an f-string prints for a scalar (\<open>str\<close>), and Python's truth value of it.\<close>

fun py_str :: "scalar \<Rightarrow> string" where
  "py_str (Str s) = s"
| "py_str (Num i) = str_int i"

fun truthy :: "scalar \<Rightarrow> bool" where
  "truthy (Str s) = (s \<noteq> [])"
| "truthy (Num i) = (i \<noteq> 0)"

text \<open>What an f-string prints for \<open>self.replication_key\<close>, a \<open>str | None\<close>.\<close>

fun py_str_opt :: "string option \<Rightarrow> string" where
  "py_str_opt None = ''None''"
| "py_str_opt (Some s) = s"

subsection \<open>Dictionaries\<close>

text \<open>
  A Python \<open>dict\<close> is an association list with distinct keys in insertion order.
  \<open>dict_set\<close> is \<^verbatim>\<open>d[k] = v\<close>: an existing key keeps its place, a new one goes last.
  \<open>map_of\<close> is the lookup, and \<open>py_dict\<close> is \<^verbatim>\<open>dict(pairs)\<close>.
\<close>

fun dict_set :: "'k \<Rightarrow> 'v \<Rightarrow> ('k \<times> 'v) list \<Rightarrow> ('k \<times> 'v) list" where
  "dict_set k v [] = [(k, v)]"
| "dict_set k v ((k', v') # d) =
     (if k' = k then (k, v) # d else (k', v') # dict_set k v d)"

definition py_dict :: "('k \<times> 'v) list \<Rightarrow> ('k \<times> 'v) list" where
  "py_dict pairs = foldl (\<lambda>d (k, v). dict_set k v d) [] pairs"

subsection \<open>Strings\<close>

text \<open>\<^verbatim>\<open>s.split(c)\<close> for a one-character separator: never empty, keeps empty pieces.\<close>

fun split_on :: "char \<Rightarrow> string \<Rightarrow> string list" where
  "split_on c [] = [[]]"
| "split_on c (x # xs) =
     (if x = c then [] # split_on c xs
      else (case split_on c xs of
              [] \<Rightarrow> [[x]]
            | w # ws \<Rightarrow> (x # w) # ws))"

text \<open>Left-padding with zeros to a width, as \<open>%m\<close>, \<open>%d\<close>, \<open>%f\<close> and the like do.\<close>

definition zfill :: "nat \<Rightarrow> string \<Rightarrow> string" where
  "zfill w s = replicate (w - length s) CHR ''0'' @ s"

subsection \<open>Timestamps\<close>

text \<open>
  The fields of a \<open>datetime\<close> that \<open>strftime\<close> reads for the format of
  \<open>get_url_params\<close>. The format has no \<open>%z\<close>: the zone of the object is never read.
\<close>

record datetime =
  year :: nat
  month :: nat
  day :: nat
  hour :: nat
  minute :: nat
  second :: nat
  microsecond :: nat

text \<open>
  \<^verbatim>\<open>timestamp.strftime("%Y-%m-%dT%H:%M:%S.%fZ")\<close>. \<open>%Y\<close> is the C library's: with
  glibc (CPython on Linux) the year is printed without padding, so a year below 1000 has
  fewer than four digits. The other fields are padded with zeros.
\<close>

definition strftime :: "datetime \<Rightarrow> string" where
  "strftime t =
     str_nat (year t) @ ''-'' @ zfill 2 (str_nat (month t)) @ ''-'' @
     zfill 2 (str_nat (day t)) @ ''T'' @ zfill 2 (str_nat (hour t)) @ '':'' @
     zfill 2 (str_nat (minute t)) @ '':'' @ zfill 2 (str_nat (second t)) @ ''.'' @
     zfill 6 (str_nat (microsecond t)) @ ''Z''"

section \<open>The stream\<close>

text \<open>
  The attributes of a \<open>DataverseTableStream\<close> that the methods below read.
  \<open>replication_key\<close> is the framework's \<open>str | None\<close>, \<open>is_timestamp_replication_key\<close>
  the framework's property (computed from the schema), \<open>sql_attribute_names\<close> the truth
  value of \<^verbatim>\<open>self.config.get("sql_attribute_names")\<close>.
\<close>

record stream =
  replication_key :: "string option"
  is_timestamp_replication_key :: bool
  start_date :: string
  custom_query_params :: string
  sql_attribute_names :: bool

text \<open>A continuation token is a \<open>urllib.parse.ParseResult\<close>, a tuple of six strings.\<close>

record parse_result =
  scheme :: string
  netloc :: string
  path :: string
  params :: string
  query :: string
  fragment :: string

text \<open>What the logger receives.\<close>

datatype log_entry = Warning string | Info string | InfoDict "(string \<times> string) list"

subsection \<open>The framework's starting replication value\<close>

text \<open>
  What the framework keeps in the state of a stream: the name of the replication key of
  the last run and the bookmark, the value of that key in the last record processed
  (\<^verbatim>\<open>state.get("replication_key")\<close> and \<^verbatim>\<open>state.get("replication_key_value")\<close>).
\<close>

record stream_state =
  state_replication_key :: "string option"
  state_replication_key_value :: "scalar option"

text \<open>
  \<^verbatim>\<open>max(a, b, key=f)\<close>: the keys are computed in order, and \<open>b\<close> is returned only
  when its key is greater.
\<close>

definition max_by_key :: "('a \<Rightarrow> exn + 'k::linorder) \<Rightarrow> 'a \<Rightarrow> 'a \<Rightarrow> exn + 'a" where
  "max_by_key key a b =
     (case key a of
        Inl e \<Rightarrow> Inl e
      | Inr ka \<Rightarrow> (case key b of
                    Inl e \<Rightarrow> Inl e
                  | Inr kb \<Rightarrow> Inr (if ka < kb then b else a)))"

text \<open>
  \<open>get_starting_replication_key_value(context)\<close>, called first by
  \<open>get_starting_timestamp\<close>, is the framework's (\<open>singer_sdk\<close>), not the
  connector's, and is not among the sources: the definitions below follow the library.
  The framework computes the value when the sync of the stream starts
  (\<open>_write_starting_replication_value\<close>) and hands it back at every call. For a stream
  with a replication key it is the bookmark, when one is stored under that key; the
  tap-level \<open>start_date\<close> (\<^verbatim>\<open>self.config.get("start_date")\<close>, empty when unset) when
  there is no bookmark; and, when there are both, what \<open>compare_start_date\<close> returns:
  for a timestamp-typed key the more recent of the two,
  \<^verbatim>\<open>max(value, start_date_value, key=parse)\<close>, else the bookmark. \<open>key\<close> is the
  framework's timestamp parser, whose results are ordered as instants; an error it raises
  ends the sync before any request.
\<close>

definition compare_start_date ::
  "(scalar \<Rightarrow> exn + 'k::linorder) \<Rightarrow> stream \<Rightarrow> scalar \<Rightarrow> string \<Rightarrow> exn + scalar" where
  "compare_start_date key s bookmark start_date_value =
     (if is_timestamp_replication_key s then max_by_key key bookmark (Str start_date_value)
      else Inr bookmark)"

definition state_bookmark :: "stream \<Rightarrow> stream_state \<Rightarrow> scalar option" where
  "state_bookmark s st =
     (case state_replication_key_value st of
        None \<Rightarrow> None
      | Some b \<Rightarrow>
          (if truthy b \<and> replication_key s = state_replication_key st then Some b else None))"

definition get_starting_replication_key_value ::
  "(scalar \<Rightarrow> exn + 'k::linorder) \<Rightarrow> stream \<Rightarrow> string \<Rightarrow> stream_state
     \<Rightarrow> exn + scalar option" where
  "get_starting_replication_key_value key s tap_start_date st =
     (case replication_key s of
        None \<Rightarrow> Inr None
      | Some k \<Rightarrow>
          (if k = [] then Inr None
           else if tap_start_date \<noteq> [] then
             (case state_bookmark s st of
                None \<Rightarrow> Inr (Some (Str tap_start_date))
              | Some b \<Rightarrow>
                  (case compare_start_date key s b tap_start_date of
                     Inl e \<Rightarrow> Inl e
                   | Inr v \<Rightarrow> Inr (Some v)))
           else Inr (state_bookmark s st)))"

subsection \<open>Bookmark resolution\<close>

text \<open>
  \<open>get_starting_timestamp\<close>. The stored value \<open>stored\<close> is what the framework's
  \<open>get_starting_replication_key_value(context)\<close> returns, and \<open>parse\<close> is
  \<open>pendulum.parse\<close>: both are collaborators, taken as parameters. The first \<open>try\<close>
  catches every \<open>Exception\<close>; the second call of the parser is unguarded.
\<close>

definition get_starting_timestamp ::
  "(scalar \<Rightarrow> exn + datetime) \<Rightarrow> stream \<Rightarrow> scalar option
     \<Rightarrow> log_entry list \<times> (exn + datetime option)" where
  "get_starting_timestamp parse s stored =
     (if stored = None \<and> start_date s \<noteq> [] then
        (case parse (Str (start_date s)) of
           Inr t \<Rightarrow> ([], Inr (Some t))
         | Inl e \<Rightarrow> ([Warning (''Invalid start_date format: '' @ start_date s)], Inr None))
      else
        (case stored of
           Some v \<Rightarrow>
             (if \<not> is_timestamp_replication_key s then
                ([], Inl (ValueError (''The replication key '' @ py_str_opt (replication_key s)
                                       @ '' is not of timestamp type'')))
              else (case parse v of
                      Inr t \<Rightarrow> ([], Inr (Some t))
                    | Inl e \<Rightarrow> ([], Inl e)))
         | None \<Rightarrow> ([], Inr None)))"

subsection \<open>Request parameters\<close>

text \<open>
  The \<open>try\<close> block that opens \<open>get_url_params\<close>: it computes \<open>last_run_date\<close>. A
  \<open>datetime\<close> is always true in Python, so \<^verbatim>\<open>if timestamp\<close> tests for \<open>None\<close>.
\<close>

definition start_date_or_none :: "stream \<Rightarrow> scalar option" where
  "start_date_or_none s = (if start_date s \<noteq> [] then Some (Str (start_date s)) else None)"

definition starting_values ::
  "(scalar \<Rightarrow> exn + datetime) \<Rightarrow> stream \<Rightarrow> scalar option
     \<Rightarrow> log_entry list \<times> (exn + scalar option)" where
  "starting_values parse s stored =
     (case get_starting_timestamp parse s stored of
        (lg, Inr (Some t)) \<Rightarrow> (lg, Inr (Some (Str (strftime t))))
      | (lg, Inr None) \<Rightarrow> (lg, Inr (start_date_or_none s))
      | (lg, Inl e) \<Rightarrow>
          (if is_value_or_attribute_error e then
             (lg, Inr (case stored of
                         Some v \<Rightarrow> Some v
                       | None \<Rightarrow> start_date_or_none s))
           else (lg, Inl e)))"

text \<open>The ordering and filter clauses of the replication key.\<close>

definition replication_params :: "stream \<Rightarrow> scalar option \<Rightarrow> (string \<times> string) list" where
  "replication_params s last_run_date =
     (case replication_key s of
        None \<Rightarrow> []
      | Some k \<Rightarrow>
          (if k = [] then []
           else
             (let ps = dict_set ''$orderby'' (k @ '' asc'') []
              in (case last_run_date of
                    None \<Rightarrow> ps
                  | Some d \<Rightarrow>
                      (if truthy d then dict_set ''$filter'' (k @ '' ge '' @ py_str d) ps
                       else ps)))))"

text \<open>
  One round of the loop over the custom parameters: a piece without \<open>=\<close> is skipped,
  the others are cut at the first \<open>=\<close>. \<open>and_filter\<close> is the f-string
  \<^verbatim>\<open>f"({params['$filter']}) and ({value})"\<close>.
\<close>

definition and_filter :: "string \<Rightarrow> string \<Rightarrow> string" where
  "and_filter existing val = ''('' @ existing @ '') and ('' @ val @ '')''"

definition add_custom_param :: "(string \<times> string) list \<Rightarrow> string \<Rightarrow> (string \<times> string) list" where
  "add_custom_param ps param =
     (if CHR ''='' \<in> set param then
        (let key = takeWhile (\<lambda>c. c \<noteq> CHR ''='') param;
             val = tl (dropWhile (\<lambda>c. c \<noteq> CHR ''='') param)
         in (case (if key = ''$filter'' then map_of ps ''$filter'' else None) of
               Some f \<Rightarrow> dict_set ''$filter'' (and_filter f val) ps
             | None \<Rightarrow> dict_set key val ps))
      else ps)"

definition add_custom_query_params ::
  "string \<Rightarrow> (string \<times> string) list \<Rightarrow> (string \<times> string) list" where
  "add_custom_query_params custom ps =
     (if custom \<noteq> [] then foldl add_custom_param ps (split_on CHR ''&'' custom) else ps)"

text \<open>
  \<open>get_url_params\<close>. \<open>parse_qsl\<close> is \<open>urllib.parse.parse_qsl\<close>, a parameter. A
  \<open>ParseResult\<close> is a non-empty tuple, hence true: \<^verbatim>\<open>if next_page_token\<close> tests for
  \<open>None\<close>.
\<close>

definition get_url_params ::
  "(scalar \<Rightarrow> exn + datetime) \<Rightarrow> (string \<Rightarrow> (string \<times> string) list) \<Rightarrow> stream
     \<Rightarrow> scalar option \<Rightarrow> parse_result option
     \<Rightarrow> log_entry list \<times> (exn + (string \<times> string) list)" where
  "get_url_params parse parse_qsl s stored next_page_token =
     (case starting_values parse s stored of
        (lg, Inl e) \<Rightarrow> (lg, Inl e)
      | (lg, Inr last_run_date) \<Rightarrow>
          (let ps = add_custom_query_params (custom_query_params s)
                      (replication_params s last_run_date)
           in (case next_page_token of
                 None \<Rightarrow> (lg @ [InfoDict ps], Inr ps)
               | Some tok \<Rightarrow>
                   (let ps' = py_dict (parse_qsl (query tok))
                    in (lg @ [Info (query tok), InfoDict ps'], Inr ps')))))"

subsection \<open>A parser for the scenarios\<close>

text \<open>
  \<open>pendulum.parse\<close> is a library function. The theorems below hold for every parser;
  where an input has to be run, this one stands in for it. It reads a calendar date
  \<open>YYYY-MM-DD\<close> as midnight of that day, as pendulum does, and raises the
  \<open>ParserError\<close> (a \<open>ValueError\<close>) on the other strings it is given below, none of
  which pendulum accepts; an integer is a \<open>TypeError\<close>.
\<close>

definition is_digit :: "char \<Rightarrow> bool" where
  "is_digit c = (c \<in> set ''0123456789'')"

definition digit_val :: "char \<Rightarrow> nat" where
  "digit_val c = of_char c - 48"

definition num_val :: "string \<Rightarrow> nat" where
  "num_val ds = foldl (\<lambda>n c. 10 * n + digit_val c) 0 ds"

definition days_in_month :: "nat \<Rightarrow> nat \<Rightarrow> nat" where
  "days_in_month y m =
     (if m = 2 then (if y mod 4 = 0 \<and> (y mod 100 \<noteq> 0 \<or> y mod 400 = 0) then 29 else 28)
      else if m \<in> {4, 6, 9, 11} then 30 else 31)"

fun parse_date :: "scalar \<Rightarrow> exn + datetime" where
  "parse_date (Num i) = Inl (OtherError ''TypeError'')"
| "parse_date (Str str) =
     (case str of
        [y1, y2, y3, y4, d1, m1, m2, d2, a1, a2] \<Rightarrow>
          (if list_all is_digit [y1, y2, y3, y4, m1, m2, a1, a2] \<and> d1 = CHR ''-'' \<and> d2 = CHR ''-''
              \<and> 1 \<le> num_val [m1, m2] \<and> num_val [m1, m2] \<le> 12
              \<and> 1 \<le> num_val [a1, a2]
              \<and> num_val [a1, a2] \<le> days_in_month (num_val [y1, y2, y3, y4]) (num_val [m1, m2])
           then Inr \<lparr>year = num_val [y1, y2, y3, y4], month = num_val [m1, m2],
                     day = num_val [a1, a2], hour = 0, minute = 0, second = 0,
                     microsecond = 0\<rparr>
           else Inl (ValueError (''Unable to parse string ['' @ str @ '']'')))
      | _ \<Rightarrow> Inl (ValueError (''Unable to parse string ['' @ str @ '']'')))"

text \<open>
  The framework's parser on the same calendar dates, with the order of the midnights
  they stand for: that of year, month and day.
\<close>

definition date_key :: "scalar \<Rightarrow> exn + nat" where
  "date_key v =
     (case parse_date v of
        Inl e \<Rightarrow> Inl e
      | Inr t \<Rightarrow> Inr (year t * 10000 + month t * 100 + day t))"

text \<open>
  \<open>urllib.parse.parse_qsl\<close> on a query without escapes (\<open>%\<close>, \<open>+\<close>): the pieces
  between \<open>&\<close>, cut at the first \<open>=\<close>; a piece without \<open>=\<close> or with an empty value is
  dropped.
\<close>

definition parse_qsl_plain :: "string \<Rightarrow> (string \<times> string) list" where
  "parse_qsl_plain q =
     map (\<lambda>p. (takeWhile (\<lambda>c. c \<noteq> CHR ''='') p, tl (dropWhile (\<lambda>c. c \<noteq> CHR ''='') p)))
       (filter (\<lambda>p. CHR ''='' \<in> set p \<and> tl (dropWhile (\<lambda>c. c \<noteq> CHR ''='') p) \<noteq> [])
          (split_on CHR ''&'' q))"

subsection \<open>Records of a response\<close>











subsection \<open>Post-processing\<close>

text \<open>
  The dict comprehension \<^verbatim>\<open>{f(k): v for k, v in row.items()}\<close>: the items in order, each
  stored under its new name, a later item overwriting an earlier one of the same name.
\<close>

definition rename_keys :: "('k \<Rightarrow> 'k) \<Rightarrow> ('k \<times> 'v) list \<Rightarrow> ('k \<times> 'v) list" where
  "rename_keys f row = foldl (\<lambda>d (k, v). dict_set (f k) v d) [] row"

text \<open>
  \<open>post_process\<close>: the result is \<open>dict | None\<close>. The name mapping
  \<open>sql_attribute_name\<close> of \<open>tap_dataverse.utils\<close> is a parameter.
\<close>

definition post_process ::
  "(string \<Rightarrow> string) \<Rightarrow> stream \<Rightarrow> (string \<times> 'v) list \<Rightarrow> (string \<times> 'v) list option" where
  "post_process name_of s row =
     Some (if sql_attribute_names s then rename_keys name_of row else row)"

text \<open>
  Modelled from the spec: the character classes of the name mapping below, which is not
  among the sources. Letters are the ASCII letters; \<open>sql_start_char\<close> rewrites the
  first character of a name, \<open>sql_rest_char\<close> each of the others.
\<close>

definition is_letter :: "char \<Rightarrow> bool" where
  "is_letter c =
     (c \<in> set ''abcdefghijklmnopqrstuvwxyz'' \<or> c \<in> set ''ABCDEFGHIJKLMNOPQRSTUVWXYZ'')"

definition sql_start_char :: "char \<Rightarrow> char" where
  "sql_start_char c = (if is_letter c \<or> c = CHR ''_'' then c else CHR ''_'')"

definition sql_rest_char :: "char \<Rightarrow> char" where
  "sql_rest_char c = (if is_letter c \<or> is_digit c \<or> c = CHR ''_'' then c else CHR ''_'')"

text \<open>
  Modelled from the spec: \<open>sql_attribute_name\<close> of \<open>tap_dataverse.utils\<close> is not
  among the sources. The specification asks for a pure name mapping into the
  SQL-identifier-safe form "letters/underscore start, then letters/digits/underscore":
  here every character that is not allowed at its place becomes an underscore, and the
  others stay.
\<close>

fun sql_attribute_name :: "string \<Rightarrow> string" where
  "sql_attribute_name [] = []"
| "sql_attribute_name (c # cs) = sql_start_char c # map sql_rest_char cs"

subsection \<open>Reading the custom parameters\<close>




section \<open>Lemmas\<close>

subsection \<open>Dictionaries\<close>

lemma map_of_dict_set: "map_of (dict_set k v d) = (map_of d)(k \<mapsto> v)"
  by (induction d) (auto simp: fun_eq_iff)

lemma keys_dict_set: "fst ` set (dict_set k v d) = insert k (fst ` set d)"
  by (simp add: dom_map_of_conv_image_fst [symmetric] map_of_dict_set)

lemma distinct_dict_set: "distinct (map fst d) \<Longrightarrow> distinct (map fst (dict_set k v d))"
proof (induction d)
  case Nil
  show ?case by simp
next
  case (Cons p d)
  obtain k' v' where p: "p = (k', v')" by (cases p)
  from Cons show ?case
    unfolding p using keys_dict_set [of k v d] by (auto simp: image_iff)
qed

lemma dict_set_new: "k \<notin> fst ` set d \<Longrightarrow> dict_set k v d = d @ [(k, v)]"
  by (induction d) auto

lemma set_dict_set: "set (dict_set k v d) \<subseteq> insert (k, v) (set d)"
  by (induction d) (auto split: if_splits)

lemma map_of_py_dict_fold:
  "map_of (foldl (\<lambda>d (k, v). dict_set k v d) acc pairs) = map_of (rev pairs @ acc)"
proof (induction pairs arbitrary: acc)
  case Nil
  show ?case by simp
next
  case (Cons p pairs)
  obtain k v where p: "p = (k, v)" by (cases p)
  show ?case
    unfolding p by (simp add: Cons.IH map_of_dict_set fun_eq_iff map_add_def split: option.splits)
qed

lemma map_of_py_dict: "map_of (py_dict pairs) = map_of (rev pairs)"
  by (simp add: py_dict_def map_of_py_dict_fold)

lemma keys_py_dict: "fst ` set (py_dict pairs) = fst ` set pairs"
  using arg_cong [OF map_of_py_dict [of pairs], of dom]
  by (simp add: dom_map_of_conv_image_fst)

lemma py_dict_fold_distinct:
  assumes "distinct (map fst acc)"
  shows "distinct (map fst (foldl (\<lambda>d (k, v). dict_set k v d) acc pairs))"
  using assms
proof (induction pairs arbitrary: acc)
  case Nil
  then show ?case by simp
next
  case (Cons p pairs)
  obtain k v where p: "p = (k, v)" by (cases p)
  from Cons.prems have "distinct (map fst (dict_set k v acc))"
    by (rule distinct_dict_set)
  from Cons.IH [OF this] show ?case
    unfolding p by simp
qed

lemma distinct_py_dict: "distinct (map fst (py_dict pairs))"
  unfolding py_dict_def by (rule py_dict_fold_distinct) simp

lemma py_dict_fold_subset:
  "set (foldl (\<lambda>d (k, v). dict_set k v d) acc pairs) \<subseteq> set acc \<union> set pairs"
proof (induction pairs arbitrary: acc)
  case Nil
  show ?case by simp
next
  case (Cons p pairs)
  obtain k v where p: "p = (k, v)" by (cases p)
  have "set (foldl (\<lambda>d (k, v). dict_set k v d) (dict_set k v acc) pairs)
          \<subseteq> set (dict_set k v acc) \<union> set pairs"
    by (rule Cons.IH)
  with set_dict_set [of k v acc] show ?case
    unfolding p by auto
qed

lemma set_py_dict: "set (py_dict pairs) \<subseteq> set pairs"
  using py_dict_fold_subset [of "[]" pairs] by (simp add: py_dict_def)

lemma py_dict_fold_append:
  assumes "distinct (map fst pairs)" and "fst ` set acc \<inter> fst ` set pairs = {}"
  shows "foldl (\<lambda>d (k, v). dict_set k v d) acc pairs = acc @ pairs"
  using assms
proof (induction pairs arbitrary: acc)
  case Nil
  show ?case by simp
next
  case (Cons p pairs)
  obtain k v where p: "p = (k, v)" by (cases p)
  from Cons.prems have new: "k \<notin> fst ` set acc"
    unfolding p by auto
  then have step: "dict_set k v acc = acc @ [(k, v)]"
    by (rule dict_set_new)
  have "distinct (map fst pairs)"
    using Cons.prems(1) by simp
  moreover have "fst ` set (acc @ [(k, v)]) \<inter> fst ` set pairs = {}"
    using Cons.prems unfolding p by auto
  ultimately have "foldl (\<lambda>d (k, v). dict_set k v d) (acc @ [(k, v)]) pairs
                     = (acc @ [(k, v)]) @ pairs"
    by (rule Cons.IH)
  then show ?case
    unfolding p by (simp add: step)
qed

lemma py_dict_distinct: "distinct (map fst pairs) \<Longrightarrow> py_dict pairs = pairs"
  using py_dict_fold_append [of pairs "[]"] by (simp add: py_dict_def)

subsection \<open>Renaming the fields of a record\<close>

lemma rename_keys_py_dict:
  "rename_keys f row = py_dict (map (\<lambda>(k, v). (f k, v)) row)"
proof -
  have "foldl (\<lambda>d (k, v). dict_set (f k) v d) acc row =
          foldl (\<lambda>d (k, v). dict_set k v d) acc (map (\<lambda>(k, v). (f k, v)) row)" for acc
    by (induction row arbitrary: acc) (auto simp: case_prod_beta)
  then show ?thesis
    by (simp add: rename_keys_def py_dict_def)
qed

lemma keys_rename_keys: "fst ` set (rename_keys f row) = f ` fst ` set row"
  by (force simp: rename_keys_py_dict keys_py_dict image_iff)

lemma rename_keys_fixed:
  assumes "distinct (map fst d)" and "\<forall>k \<in> fst ` set d. f k = k"
  shows "rename_keys f d = d"
proof -
  have "map (\<lambda>(k, v). (f k, v)) d = d"
    using assms(2) by (induction d) auto
  then show ?thesis
    by (simp add: rename_keys_py_dict py_dict_distinct assms(1))
qed

lemma rename_keys_idem:
  assumes "\<And>k. f (f k) = f k"
  shows "rename_keys f (rename_keys f row) = rename_keys f row"
proof (rule rename_keys_fixed)
  show "distinct (map fst (rename_keys f row))"
    by (simp add: rename_keys_py_dict distinct_py_dict)
  show "\<forall>k \<in> fst ` set (rename_keys f row). f k = k"
    unfolding keys_rename_keys using assms by auto
qed

subsection \<open>The name mapping\<close>

lemma sql_start_char_idem: "sql_start_char (sql_start_char c) = sql_start_char c"
  by (simp add: sql_start_char_def)

lemma sql_rest_char_idem: "sql_rest_char (sql_rest_char c) = sql_rest_char c"
  by (simp add: sql_rest_char_def)

lemma sql_attribute_name_idem:
  "sql_attribute_name (sql_attribute_name name) = sql_attribute_name name"
  by (cases name) (simp_all add: sql_start_char_idem sql_rest_char_idem)

subsection \<open>The cases of bookmark resolution\<close>

lemma starting_values_not_timestamp:
  assumes "stored = Some v" and "\<not> is_timestamp_replication_key s"
  shows "starting_values parse s stored = ([], Inr (Some v))"
  using assms by (simp add: starting_values_def get_starting_timestamp_def)

lemma starting_values_stored_parsed:
  assumes "stored = Some v" and "is_timestamp_replication_key s" and "parse v = Inr t"
  shows "starting_values parse s stored = ([], Inr (Some (Str (strftime t))))"
  using assms by (simp add: starting_values_def get_starting_timestamp_def)





lemma get_url_params_returns:
  assumes "starting_values parse s stored = (lg, Inr d)"
  shows "get_url_params parse parse_qsl s stored None =
           (lg @ [InfoDict (add_custom_query_params (custom_query_params s)
                              (replication_params s d))],
            Inr (add_custom_query_params (custom_query_params s) (replication_params s d)))"
    and "get_url_params parse parse_qsl s stored (Some tok) =
           (lg @ [Info (query tok), InfoDict (py_dict (parse_qsl (query tok)))],
            Inr (py_dict (parse_qsl (query tok))))"
  using assms by (simp_all add: get_url_params_def Let_def)

lemma get_url_params_raises:
  assumes "starting_values parse s stored = (lg, Inl e)"
  shows "get_url_params parse parse_qsl s stored tok = (lg, Inl e)"
  using assms by (simp add: get_url_params_def)

lemma replication_params_filter:
  assumes "replication_key s = Some k" and "k \<noteq> []" and "truthy d"
  shows "replication_params s (Some d) =
           [(''$orderby'', k @ '' asc''), (''$filter'', k @ '' ge '' @ py_str d)]"
  using assms by (simp add: replication_params_def)

lemma strftime_not_Nil: "strftime t \<noteq> []"
  by (simp add: strftime_def)

subsection \<open>Merging the custom parameters\<close>






subsection \<open>Extraction of the records\<close>



subsection \<open>The framework's starting replication value\<close>

lemma starting_value_without_bookmark:
  assumes "state_replication_key_value st = None"
  shows "get_starting_replication_key_value key s tap_start_date st =
           Inr (case replication_key s of
                  None \<Rightarrow> None
                | Some k \<Rightarrow> (if k \<noteq> [] \<and> tap_start_date \<noteq> [] then Some (Str tap_start_date)
                             else None))"
  using assms
  by (simp add: get_starting_replication_key_value_def state_bookmark_def split: option.splits)

lemma starting_value_bookmark_only:
  assumes "replication_key s = Some k" and "k \<noteq> []" and "state_bookmark s st = Some b"
  shows "get_starting_replication_key_value key s [] st = Inr (Some b)"
  using assms by (simp add: get_starting_replication_key_value_def)

lemma starting_value_more_recent:
  assumes "replication_key s = Some k" and "k \<noteq> []" and "state_bookmark s st = Some b"
    and "is_timestamp_replication_key s" and "tap_start_date \<noteq> []"
    and "key b = Inr kb" and "key (Str tap_start_date) = Inr ks"
  shows "get_starting_replication_key_value key s tap_start_date st =
           Inr (Some (if kb < ks then Str tap_start_date else b))"
  using assms
  by (simp add: get_starting_replication_key_value_def compare_start_date_def max_by_key_def)

lemma state_bookmark_stored:
  assumes "replication_key s = Some k" and "state_replication_key st = Some k"
    and "state_replication_key_value st = Some b" and "truthy b"
  shows "state_bookmark s st = Some b"
  using assms by (simp add: state_bookmark_def)

section \<open>The claims\<close>

text \<open>
  C1, as the code has it: for a stream whose replication key is not timestamp-typed and
  that has a stored bookmark value, \<open>get_starting_timestamp\<close> raises the
  \<open>ValueError\<close> "The replication key ... is not of timestamp type", and
  \<open>get_url_params\<close> catches it and returns request parameters all the same: on a first
  page those built from the stored value as it is (with a replication key set and a true
  value, \<open>$filter\<close> is "key ge value"), on a later page those of the token.
\<close>

theorem non_timestamp_key_error_is_caught:
  assumes "stored = Some v" and "\<not> is_timestamp_replication_key s"
  shows "snd (get_starting_timestamp parse s stored) =
           Inl (ValueError (''The replication key '' @ py_str_opt (replication_key s)
                              @ '' is not of timestamp type''))
       \<and> snd (get_url_params parse parse_qsl s stored None) =
           Inr (add_custom_query_params (custom_query_params s)
                  (replication_params s (Some v)))
       \<and> snd (get_url_params parse parse_qsl s stored (Some tok)) =
           Inr (py_dict (parse_qsl (query tok)))
       \<and> (replication_key s = Some k \<and> k \<noteq> [] \<and> truthy v \<longrightarrow>
            replication_params s (Some v) =
              [(''$orderby'', k @ '' asc''), (''$filter'', k @ '' ge '' @ py_str v)])"
proof -
  note sv = starting_values_not_timestamp [where parse = parse, OF assms]
  have "snd (get_starting_timestamp parse s stored) =
           Inl (ValueError (''The replication key '' @ py_str_opt (replication_key s)
                              @ '' is not of timestamp type''))"
    using assms by (simp add: get_starting_timestamp_def)
  moreover have "snd (get_url_params parse parse_qsl s stored None) =
           Inr (add_custom_query_params (custom_query_params s)
                  (replication_params s (Some v)))"
    by (simp add: get_url_params_returns(1) [OF sv])
  moreover have "snd (get_url_params parse parse_qsl s stored (Some tok)) =
           Inr (py_dict (parse_qsl (query tok)))"
    by (simp add: get_url_params_returns(2) [OF sv])
  moreover have "replication_key s = Some k \<and> k \<noteq> [] \<and> truthy v \<longrightarrow>
            replication_params s (Some v) =
              [(''$orderby'', k @ '' asc''), (''$filter'', k @ '' ge '' @ py_str v)]"
    by (simp add: replication_params_filter)
  ultimately show ?thesis by blast
qed

theorem non_timestamp_key_error_is_caught_witness:
  "snd (get_starting_timestamp parse_date
         \<lparr>replication_key = Some ''versionnumber'', is_timestamp_replication_key = False,
          start_date = [], custom_query_params = [], sql_attribute_names = False\<rparr>
         (Some (Num 42))) =
     Inl (ValueError ''The replication key versionnumber is not of timestamp type'')
   \<and> replication_params
         \<lparr>replication_key = Some ''versionnumber'', is_timestamp_replication_key = False,
          start_date = [], custom_query_params = [], sql_attribute_names = False\<rparr>
         (Some (Num 42)) =
       [(''$orderby'', ''versionnumber asc''), (''$filter'', ''versionnumber ge 42'')]"
proof -
  have printed: "py_str (Num 42) = ''42''"
    by code_simp
  from non_timestamp_key_error_is_caught [where parse = parse_date
      and parse_qsl = parse_qsl_plain
      and stored = "Some (Num 42)" and v = "Num 42" and k = "''versionnumber''"
      and s = "\<lparr>replication_key = Some ''versionnumber'', is_timestamp_replication_key = False,
          start_date = [], custom_query_params = [], sql_attribute_names = False\<rparr>"]
  show ?thesis
    unfolding printed by simp
qed

theorem non_timestamp_key_counterexample:
  "snd (get_url_params parse_date parse_qsl_plain
         \<lparr>replication_key = Some ''versionnumber'', is_timestamp_replication_key = False,
          start_date = [], custom_query_params = [], sql_attribute_names = False\<rparr>
         (Some (Num 42)) None) =
     Inr [(''$orderby'', ''versionnumber asc''), (''$filter'', ''versionnumber ge 42'')]"
  by code_simp









text \<open>
  C4: with a continuation token, the parameters that \<open>get_url_params\<close> returns are
  exactly \<open>dict(parse_qsl(token.query))\<close>: their keys are the keys of the pairs parsed
  from the token's query, each with the value of its last pair, whatever the replication
  key, the start date, the stored value and the custom parameters are. The call returns
  unless bookmark resolution raises an error that the handler does not catch, which only
  the parser can raise, on a stored value of a timestamp-typed key.
\<close>

theorem continuation_token_takes_precedence:
  "(case snd (get_url_params parse parse_qsl s stored (Some tok)) of
      Inr ps \<Rightarrow>
        ps = py_dict (parse_qsl (query tok))
        \<and> fst ` set ps = fst ` set (parse_qsl (query tok))
        \<and> map_of ps = map_of (rev (parse_qsl (query tok)))
    | Inl e \<Rightarrow>
        \<not> is_value_or_attribute_error e \<and> is_timestamp_replication_key s
        \<and> (\<exists>v. stored = Some v \<and> parse v = Inl e))"
proof (cases "starting_values parse s stored")
  case (Pair lg r)
  show ?thesis
  proof (cases r)
    case (Inr d)
    with Pair have "starting_values parse s stored = (lg, Inr d)" by simp
    from get_url_params_returns(2) [OF this] show ?thesis
      by (simp add: keys_py_dict map_of_py_dict)
  next
    case (Inl e)
    with Pair have sv: "starting_values parse s stored = (lg, Inl e)" by simp
    then have "\<not> is_value_or_attribute_error e \<and> is_timestamp_replication_key s
        \<and> (\<exists>v. stored = Some v \<and> parse v = Inl e)"
      by (auto simp: starting_values_def get_starting_timestamp_def
          split: if_splits sum.splits option.splits)
    with get_url_params_raises [OF sv] show ?thesis by simp
  qed
qed

theorem continuation_token_takes_precedence_witness:
  "snd (get_url_params parse_date parse_qsl_plain
         \<lparr>replication_key = Some ''modifiedon'', is_timestamp_replication_key = True,
          start_date = ''2024-01-01'', custom_query_params = ''$filter=statecode eq 0&$top=5'',
          sql_attribute_names = False\<rparr>
         None
         (Some \<lparr>scheme = ''https'', netloc = ''org.crm.dynamics.com'',
                path = ''/api/data/v9.2/accounts'', params = [],
                query = ''$orderby=modifiedon asc&$skiptoken=abc'', fragment = []\<rparr>)) =
     Inr [(''$orderby'', ''modifiedon asc''), (''$skiptoken'', ''abc'')]"
proof -
  have "py_dict (parse_qsl_plain ''$orderby=modifiedon asc&$skiptoken=abc'') =
          [(''$orderby'', ''modifiedon asc''), (''$skiptoken'', ''abc'')]"
    by code_simp
  moreover have "\<exists>ps. snd (get_url_params parse_date parse_qsl_plain
         \<lparr>replication_key = Some ''modifiedon'', is_timestamp_replication_key = True,
          start_date = ''2024-01-01'', custom_query_params = ''$filter=statecode eq 0&$top=5'',
          sql_attribute_names = False\<rparr>
         None
         (Some \<lparr>scheme = ''https'', netloc = ''org.crm.dynamics.com'',
                path = ''/api/data/v9.2/accounts'', params = [],
                query = ''$orderby=modifiedon asc&$skiptoken=abc'', fragment = []\<rparr>)) = Inr ps"
    using continuation_token_takes_precedence [where parse = parse_date
        and parse_qsl = parse_qsl_plain and stored = None
        and s = "\<lparr>replication_key = Some ''modifiedon'', is_timestamp_replication_key = True,
          start_date = ''2024-01-01'', custom_query_params = ''$filter=statecode eq 0&$top=5'',
          sql_attribute_names = False\<rparr>"
        and tok = "\<lparr>scheme = ''https'', netloc = ''org.crm.dynamics.com'',
                path = ''/api/data/v9.2/accounts'', params = [],
                query = ''$orderby=modifiedon asc&$skiptoken=abc'', fragment = []\<rparr>"]
    by (auto split: sum.splits)
  ultimately show ?thesis
    using continuation_token_takes_precedence [where parse = parse_date
        and parse_qsl = parse_qsl_plain and stored = None
        and s = "\<lparr>replication_key = Some ''modifiedon'', is_timestamp_replication_key = True,
          start_date = ''2024-01-01'', custom_query_params = ''$filter=statecode eq 0&$top=5'',
          sql_attribute_names = False\<rparr>"
        and tok = "\<lparr>scheme = ''https'', netloc = ''org.crm.dynamics.com'',
                path = ''/api/data/v9.2/accounts'', params = [],
                query = ''$orderby=modifiedon asc&$skiptoken=abc'', fragment = []\<rparr>"]
    by (auto split: sum.splits)
qed







text \<open>
  C7, as the code has it: for a stream with a timestamp-typed replication key and a
  bookmark stored under that key, the starting value that \<open>get_starting_timestamp\<close>
  reads from the framework is the bookmark when no tap-level \<open>start_date\<close> is set;
  when one is set and both parse, it is the more recent of the two (the bookmark on a
  tie), so a later \<open>start_date\<close> takes the place of the bookmark. For a starting value
  that the parser reads, the \<open>$filter\<close> clause of the first request is "key ge "
  followed by that value as \<open>strftime\<close> prints it, the custom parameters merged into
  that.
\<close>

theorem starting_value_is_the_filter_bound:
  assumes "replication_key s = Some k" and "k \<noteq> []" and "is_timestamp_replication_key s"
    and "state_replication_key st = Some k" and "state_replication_key_value st = Some b"
    and "truthy b"
  shows "(tap_start_date = [] \<longrightarrow>
            get_starting_replication_key_value key s tap_start_date st = Inr (Some b))
       \<and> (tap_start_date \<noteq> [] \<and> key b = Inr kb \<and> key (Str tap_start_date) = Inr ks \<longrightarrow>
            get_starting_replication_key_value key s tap_start_date st =
              Inr (Some (if kb < ks then Str tap_start_date else b)))
       \<and> (parse v = Inr t \<longrightarrow>
            snd (get_url_params parse parse_qsl s (Some v) None) =
              Inr (add_custom_query_params (custom_query_params s)
                     [(''$orderby'', k @ '' asc''), (''$filter'', k @ '' ge '' @ strftime t)]))"
proof -
  note bookmark = state_bookmark_stored [OF assms(1,4,5,6)]
  have "get_starting_replication_key_value key s tap_start_date st = Inr (Some b)"
    if "tap_start_date = []"
    unfolding that by (rule starting_value_bookmark_only [OF assms(1,2) bookmark])
  moreover have "get_starting_replication_key_value key s tap_start_date st =
              Inr (Some (if kb < ks then Str tap_start_date else b))"
    if "tap_start_date \<noteq> []" and "key b = Inr kb" and "key (Str tap_start_date) = Inr ks"
    using starting_value_more_recent [where key = key, OF assms(1,2) bookmark assms(3) that] .
  moreover have "snd (get_url_params parse parse_qsl s (Some v) None) =
              Inr (add_custom_query_params (custom_query_params s)
                     [(''$orderby'', k @ '' asc''), (''$filter'', k @ '' ge '' @ strftime t)])"
    if "parse v = Inr t"
  proof -
    note sv = starting_values_stored_parsed [where parse = parse, OF refl assms(3) that]
    have "replication_params s (Some (Str (strftime t))) =
            [(''$orderby'', k @ '' asc''), (''$filter'', k @ '' ge '' @ strftime t)]"
      using replication_params_filter [OF assms(1,2), of "Str (strftime t)"]
      by (simp add: strftime_not_Nil)
    with get_url_params_returns(1) [OF sv, of parse_qsl] show ?thesis
      by simp
  qed
  ultimately show ?thesis by blast
qed

lemma parse_date_2024_02_29:
  "parse_date (Str ''2024-02-29'') =
     Inr \<lparr>year = 2024, month = 2, day = 29, hour = 0, minute = 0, second = 0, microsecond = 0\<rparr>"
  by (simp add: is_digit_def num_val_def digit_val_def days_in_month_def)

lemma strftime_2024_02_29:
  "strftime \<lparr>year = 2024, month = 2, day = 29, hour = 0, minute = 0, second = 0,
              microsecond = 0\<rparr> = ''2024-02-29T00:00:00.000000Z''"
  by code_simp

lemma date_key_2024_02_29: "date_key (Str ''2024-02-29'') = Inr 20240229"
  by (simp add: date_key_def is_digit_def num_val_def digit_val_def days_in_month_def)

lemma date_key_2024_01_01: "date_key (Str ''2024-01-01'') = Inr 20240101"
  by (simp add: date_key_def is_digit_def num_val_def digit_val_def days_in_month_def)

lemma date_key_2025_01_01: "date_key (Str ''2025-01-01'') = Inr 20250101"
  by (simp add: date_key_def is_digit_def num_val_def digit_val_def days_in_month_def)

theorem starting_value_is_the_filter_bound_witness:
  "get_starting_replication_key_value date_key
     \<lparr>replication_key = Some ''modifiedon'', is_timestamp_replication_key = True,
      start_date = [], custom_query_params = [], sql_attribute_names = False\<rparr>
     []
     \<lparr>state_replication_key = Some ''modifiedon'',
      state_replication_key_value = Some (Str ''2024-02-29'')\<rparr> =
     Inr (Some (Str ''2024-02-29''))
   \<and> get_starting_replication_key_value date_key
     \<lparr>replication_key = Some ''modifiedon'', is_timestamp_replication_key = True,
      start_date = ''2024-01-01'', custom_query_params = [], sql_attribute_names = False\<rparr>
     ''2024-01-01''
     \<lparr>state_replication_key = Some ''modifiedon'',
      state_replication_key_value = Some (Str ''2024-02-29'')\<rparr> =
     Inr (Some (Str ''2024-02-29''))
   \<and> snd (get_url_params parse_date parse_qsl_plain
         \<lparr>replication_key = Some ''modifiedon'', is_timestamp_replication_key = True,
          start_date = ''2024-01-01'', custom_query_params = [], sql_attribute_names = False\<rparr>
         (Some (Str ''2024-02-29'')) None) =
       Inr [(''$orderby'', ''modifiedon asc''),
            (''$filter'', ''modifiedon ge 2024-02-29T00:00:00.000000Z'')]"
proof -
  have first: "get_starting_replication_key_value date_key
     \<lparr>replication_key = Some ''modifiedon'', is_timestamp_replication_key = True,
      start_date = [], custom_query_params = [], sql_attribute_names = False\<rparr>
     []
     \<lparr>state_replication_key = Some ''modifiedon'',
      state_replication_key_value = Some (Str ''2024-02-29'')\<rparr> =
     Inr (Some (Str ''2024-02-29''))"
    using starting_value_is_the_filter_bound [where key = date_key and tap_start_date = "[]"
      and k = "''modifiedon''" and b = "Str ''2024-02-29''"
      and s = "\<lparr>replication_key = Some ''modifiedon'', is_timestamp_replication_key = True,
          start_date = [], custom_query_params = [], sql_attribute_names = False\<rparr>"
      and st = "\<lparr>state_replication_key = Some ''modifiedon'',
          state_replication_key_value = Some (Str ''2024-02-29'')\<rparr>"]
    by simp
  note inst = starting_value_is_the_filter_bound [where key = date_key
      and parse = parse_date and parse_qsl = parse_qsl_plain
      and tap_start_date = "''2024-01-01''"
      and k = "''modifiedon''" and b = "Str ''2024-02-29''" and v = "Str ''2024-02-29''"
      and kb = 20240229 and ks = 20240101
      and t = "\<lparr>year = 2024, month = 2, day = 29, hour = 0, minute = 0, second = 0,
                 microsecond = 0\<rparr>"
      and s = "\<lparr>replication_key = Some ''modifiedon'', is_timestamp_replication_key = True,
          start_date = ''2024-01-01'', custom_query_params = [], sql_attribute_names = False\<rparr>"
      and st = "\<lparr>state_replication_key = Some ''modifiedon'',
          state_replication_key_value = Some (Str ''2024-02-29'')\<rparr>"]
  have rest: "get_starting_replication_key_value date_key
     \<lparr>replication_key = Some ''modifiedon'', is_timestamp_replication_key = True,
      start_date = ''2024-01-01'', custom_query_params = [], sql_attribute_names = False\<rparr>
     ''2024-01-01''
     \<lparr>state_replication_key = Some ''modifiedon'',
      state_replication_key_value = Some (Str ''2024-02-29'')\<rparr> =
     Inr (Some (Str ''2024-02-29''))
   \<and> snd (get_url_params parse_date parse_qsl_plain
         \<lparr>replication_key = Some ''modifiedon'', is_timestamp_replication_key = True,
          start_date = ''2024-01-01'', custom_query_params = [], sql_attribute_names = False\<rparr>
         (Some (Str ''2024-02-29'')) None) =
       Inr [(''$orderby'', ''modifiedon asc''),
            (''$filter'', ''modifiedon ge 2024-02-29T00:00:00.000000Z'')]"
    using inst date_key_2024_02_29 date_key_2024_01_01 parse_date_2024_02_29
    unfolding strftime_2024_02_29
    by (simp add: add_custom_query_params_def)
  from first rest show ?thesis by blast
qed

theorem later_start_date_counterexample:
  "get_starting_replication_key_value date_key
     \<lparr>replication_key = Some ''modifiedon'', is_timestamp_replication_key = True,
      start_date = ''2025-01-01'', custom_query_params = [], sql_attribute_names = False\<rparr>
     ''2025-01-01''
     \<lparr>state_replication_key = Some ''modifiedon'',
      state_replication_key_value = Some (Str ''2024-02-29'')\<rparr> =
     Inr (Some (Str ''2025-01-01''))
   \<and> snd (get_url_params parse_date parse_qsl_plain
         \<lparr>replication_key = Some ''modifiedon'', is_timestamp_replication_key = True,
          start_date = ''2025-01-01'', custom_query_params = [], sql_attribute_names = False\<rparr>
         (Some (Str ''2025-01-01'')) None) =
       Inr [(''$orderby'', ''modifiedon asc''),
            (''$filter'', ''modifiedon ge 2025-01-01T00:00:00.000000Z'')]"
proof -
  have "get_starting_replication_key_value date_key
     \<lparr>replication_key = Some ''modifiedon'', is_timestamp_replication_key = True,
      start_date = ''2025-01-01'', custom_query_params = [], sql_attribute_names = False\<rparr>
     ''2025-01-01''
     \<lparr>state_replication_key = Some ''modifiedon'',
      state_replication_key_value = Some (Str ''2024-02-29'')\<rparr> =
     Inr (Some (Str ''2025-01-01''))"
    by (simp add: get_starting_replication_key_value_def state_bookmark_def
        compare_start_date_def max_by_key_def date_key_2024_02_29 date_key_2025_01_01)
  moreover have "snd (get_url_params parse_date parse_qsl_plain
         \<lparr>replication_key = Some ''modifiedon'', is_timestamp_replication_key = True,
          start_date = ''2025-01-01'', custom_query_params = [], sql_attribute_names = False\<rparr>
         (Some (Str ''2025-01-01'')) None) =
       Inr [(''$orderby'', ''modifiedon asc''),
            (''$filter'', ''modifiedon ge 2025-01-01T00:00:00.000000Z'')]"
    by code_simp
  ultimately show ?thesis by blast
qed



text \<open>
  C9: sanitization in \<open>post_process\<close> is idempotent: post-processing the result of
  \<open>post_process\<close> once more gives the same record (with \<open>sql_attribute_names\<close>
  enabled, and trivially when it is not). The name mapping is the one modelled from the
  specification; \<open>rename_keys_idem\<close> is the part that the dict comprehension
  contributes, for every idempotent name mapping.
\<close>

theorem post_process_idempotent:
  "Option.bind (post_process sql_attribute_name s row) (post_process sql_attribute_name s)
     = post_process sql_attribute_name s row"
  by (simp add: post_process_def rename_keys_idem sql_attribute_name_idem)

theorem post_process_idempotent_witness:
  "post_process sql_attribute_name
     \<lparr>replication_key = None, is_timestamp_replication_key = False, start_date = [],
      custom_query_params = [], sql_attribute_names = True\<rparr>
     [(''account id'', 1::nat), (''2nd-name'', 2), (''account_id'', 3)]
     = Some [(''account_id'', 3), (''_nd_name'', 2)]
   \<and> post_process sql_attribute_name
     \<lparr>replication_key = None, is_timestamp_replication_key = False, start_date = [],
      custom_query_params = [], sql_attribute_names = True\<rparr>
     [(''account_id'', 3::nat), (''_nd_name'', 2)]
     = Some [(''account_id'', 3), (''_nd_name'', 2)]"
proof -
  have once: "post_process sql_attribute_name
     \<lparr>replication_key = None, is_timestamp_replication_key = False, start_date = [],
      custom_query_params = [], sql_attribute_names = True\<rparr>
     [(''account id'', 1::nat), (''2nd-name'', 2), (''account_id'', 3)]
     = Some [(''account_id'', 3), (''_nd_name'', 2)]"
    by code_simp
  from post_process_idempotent [of
     "\<lparr>replication_key = None, is_timestamp_replication_key = False, start_date = [],
      custom_query_params = [], sql_attribute_names = True\<rparr>"
     "[(''account id'', 1::nat), (''2nd-name'', 2), (''account_id'', 3)]"]
  show ?thesis
    unfolding once by simp
qed

text \<open>
  C10: for every record, configuration and name mapping, \<open>post_process\<close> returns a
  record, never \<open>None\<close>. With sanitization disabled the record comes back unchanged.
  With it enabled, every field of the result is a field of the input under its new name,
  with the value it had; the names of the result are the new names of the input's; a
  name holds the value of the last input field mapped to it. Where no two fields get the
  same new name, the result is the input with each name rewritten in place.
\<close>

theorem post_process_keeps_every_record:
  "post_process name_of s row \<noteq> None
   \<and> (\<not> sql_attribute_names s \<longrightarrow> post_process name_of s row = Some row)
   \<and> (sql_attribute_names s \<longrightarrow>
        (\<exists>r. post_process name_of s row = Some r
           \<and> set r \<subseteq> (\<lambda>(k, v). (name_of k, v)) ` set row
           \<and> fst ` set r = name_of ` fst ` set row
           \<and> map_of r = map_of (rev (map (\<lambda>(k, v). (name_of k, v)) row))))
   \<and> (sql_attribute_names s \<and> distinct (map fst row) \<and> inj_on name_of (fst ` set row) \<longrightarrow>
        post_process name_of s row = Some (map (\<lambda>(k, v). (name_of k, v)) row))"
proof -
  have "set (rename_keys name_of row) \<subseteq> (\<lambda>(k, v). (name_of k, v)) ` set row"
    using set_py_dict [of "map (\<lambda>(k, v). (name_of k, v)) row"]
    by (simp add: rename_keys_py_dict)
  moreover have "map_of (rename_keys name_of row) =
                   map_of (rev (map (\<lambda>(k, v). (name_of k, v)) row))"
    by (simp add: rename_keys_py_dict map_of_py_dict)
  moreover have "rename_keys name_of row = map (\<lambda>(k, v). (name_of k, v)) row"
    if "distinct (map fst row)" and "inj_on name_of (fst ` set row)"
  proof -
    have "map fst (map (\<lambda>(k, v). (name_of k, v)) row) = map name_of (map fst row)"
      by (induction row) auto
    moreover have "distinct (map name_of (map fst row))"
      by (subst distinct_map) (use that in simp)
    ultimately have "distinct (map fst (map (\<lambda>(k, v). (name_of k, v)) row))"
      by (simp only:)
    then show ?thesis
      by (simp add: rename_keys_py_dict py_dict_distinct)
  qed
  ultimately show ?thesis
    by (simp add: post_process_def keys_rename_keys)
qed

theorem post_process_keeps_every_record_witness:
  "post_process sql_attribute_name
     \<lparr>replication_key = None, is_timestamp_replication_key = False, start_date = [],
      custom_query_params = [], sql_attribute_names = True\<rparr>
     [(''account id'', 1::nat), (''name'', 2)]
     = Some [(''account_id'', 1), (''name'', 2)]
   \<and> post_process sql_attribute_name
     \<lparr>replication_key = None, is_timestamp_replication_key = False, start_date = [],
      custom_query_params = [], sql_attribute_names = False\<rparr>
     [(''account id'', 1::nat), (''name'', 2)]
     = Some [(''account id'', 1), (''name'', 2)]"
proof -
  have names: "map (\<lambda>(k, v). (sql_attribute_name k, v)) [(''account id'', 1::nat), (''name'', 2)]
                 = [(''account_id'', 1), (''name'', 2)]"
    by code_simp
  have inj: "inj_on sql_attribute_name (fst ` set [(''account id'', 1::nat), (''name'', 2)])"
    by (simp add: sql_start_char_def is_letter_def)
  from post_process_keeps_every_record [of sql_attribute_name
     "\<lparr>replication_key = None, is_timestamp_replication_key = False, start_date = [],
      custom_query_params = [], sql_attribute_names = True\<rparr>"
     "[(''account id'', 1::nat), (''name'', 2)]"]
    post_process_keeps_every_record [of sql_attribute_name
     "\<lparr>replication_key = None, is_timestamp_replication_key = False, start_date = [],
      custom_query_params = [], sql_attribute_names = False\<rparr>"
     "[(''account id'', 1::nat), (''name'', 2)]"]
  show ?thesis
    unfolding names using inj by simp
qed

end
